theory Spec2Isabelle
  imports Main "HOL-Library.Word"
begin

unbundle bit_operations_syntax

section \<open>The POSIX threading layer of wxWidgets (src/unix/threadpsx.cpp)\<close>

text \<open>
  The file builds a mutex, a condition, a counting semaphore and a managed thread on
  the pthread primitives. The embedding keeps the classes of the file as records and
  their member functions as functions that take the object and return it updated.

  Every call into the operating system is a parameter of the function that makes it:
  the \<open>int\<close> the call returns, or \<open>None\<close> when the call never returns (a
  \<open>pthread_mutex_lock\<close>, \<open>pthread_cond_wait\<close> or \<open>pthread_join\<close> that
  blocks for ever). A member function that can block returns an \<open>option\<close>, and
  \<open>None\<close> is the call that does not return.
\<close>

subsection \<open>Machine types and constants\<close>

text \<open>The widths are those of 64-bit Linux: \<open>int\<close> has 32 bits, \<open>long\<close> and \<open>size_t\<close> 64.\<close>

type_synonym size_t = "64 word"
type_synonym ulong = "64 word"
type_synonym cint = "32 word"

text \<open>\<open>wxThreadIdType\<close> is \<open>unsigned long\<close>; \<open>wxThread::ExitCode\<close> is \<open>void *\<close>.\<close>

type_synonym wxThreadIdType = "64 word"
type_synonym ExitCode = "64 word"

abbreviation EINVAL :: int where "EINVAL \<equiv> 22"
abbreviation EDEADLK :: int where "EDEADLK \<equiv> 35"
abbreviation ETIMEDOUT :: int where "ETIMEDOUT \<equiv> 110"

datatype wxMutexType = wxMUTEX_DEFAULT | wxMUTEX_RECURSIVE

datatype wxMutexError =
    wxMUTEX_NO_ERROR
  | wxMUTEX_INVALID
  | wxMUTEX_DEAD_LOCK
  | wxMUTEX_BUSY
  | wxMUTEX_UNLOCKED
  | wxMUTEX_TIMEOUT
  | wxMUTEX_MISC_ERROR

datatype wxCondError =
    wxCOND_NO_ERROR
  | wxCOND_INVALID
  | wxCOND_TIMEOUT
  | wxCOND_MISC_ERROR

datatype wxSemaError =
    wxSEMA_NO_ERROR
  | wxSEMA_INVALID
  | wxSEMA_BUSY
  | wxSEMA_TIMEOUT
  | wxSEMA_OVERFLOW
  | wxSEMA_MISC_ERROR

datatype wxThreadError =
    wxTHREAD_NO_ERROR
  | wxTHREAD_NO_RESOURCE
  | wxTHREAD_RUNNING
  | wxTHREAD_NOT_RUNNING
  | wxTHREAD_KILLED
  | wxTHREAD_MISC_ERROR

datatype wxThreadState = STATE_NEW | STATE_RUNNING | STATE_PAUSED | STATE_EXITED

definition EXITCODE_CANCELLED :: ExitCode where
  "EXITCODE_CANCELLED = - 1"

subsection \<open>wxMutexInternal\<close>

text \<open>
  \<open>m_mutex\<close> is the \<open>pthread_mutex_t\<close>, kept as the number of native locks
  that returned 0 and were not yet released by a native unlock that returned 0.
  \<open>m_owningThread\<close> is 0 when no owner is tracked.
\<close>

record wxMutexInternal =
  m_mutex :: nat
  m_isOk :: bool
  m_type :: wxMutexType
  m_owningThread :: ulong

text \<open>
  What a native call that returned \<open>err\<close> did to the \<open>pthread_mutex_t\<close>: only a
  call that returns 0 acquires it (\<open>pthread_mutex_lock\<close>, \<open>_trylock\<close>,
  \<open>_timedlock\<close>) or releases it (\<open>pthread_mutex_unlock\<close>).
\<close>

definition pthread_mutex_lock :: "nat \<Rightarrow> int \<Rightarrow> nat" where
  "pthread_mutex_lock n err = (if err = 0 then Suc n else n)"


text \<open>The constructor; \<open>err\<close> is what \<open>pthread_mutex_init\<close> returned.\<close>

definition wxMutexInternal_ctor :: "wxMutexType \<Rightarrow> int \<Rightarrow> wxMutexInternal" where
  "wxMutexInternal_ctor mutexType err =
     \<lparr> m_mutex = 0, m_isOk = (err = 0), m_type = mutexType, m_owningThread = 0 \<rparr>"

definition IsOk :: "wxMutexInternal \<Rightarrow> bool" where
  "IsOk m = m_isOk m"

text \<open>
  \<open>HandleLockResult\<close> converts the result of \<open>pthread_mutex_[timed]lock\<close>;
  \<open>tid\<close> is \<open>wxThread::GetCurrentId()\<close> of the caller.
\<close>

definition HandleLockResult ::
  "wxMutexInternal \<Rightarrow> wxThreadIdType \<Rightarrow> int \<Rightarrow> wxMutexError \<times> wxMutexInternal" where
  "HandleLockResult m tid err =
     (if err = EDEADLK then (wxMUTEX_DEAD_LOCK, m)
      else if err = EINVAL then (wxMUTEX_MISC_ERROR, m)
      else if err = ETIMEDOUT then (wxMUTEX_TIMEOUT, m)
      else if err = 0 then
        (wxMUTEX_NO_ERROR,
         (if m_type m = wxMUTEX_DEFAULT then m\<lparr> m_owningThread := tid \<rparr> else m))
      else (wxMUTEX_MISC_ERROR, m))"

text \<open>
  \<open>Lock()\<close>. The native lock is attempted only after the owner check; \<open>r\<close> is
  its result, \<open>None\<close> when it blocks for ever.
\<close>

definition Lock ::
  "wxMutexInternal \<Rightarrow> wxThreadIdType \<Rightarrow> int option \<Rightarrow> (wxMutexError \<times> wxMutexInternal) option" where
  "Lock m tid r =
     (if m_type m = wxMUTEX_DEFAULT \<and> m_owningThread m \<noteq> 0 \<and> m_owningThread m = tid
      then Some (wxMUTEX_DEAD_LOCK, m)
      else (case r of
              None \<Rightarrow> None
            | Some err \<Rightarrow>
                Some (HandleLockResult (m\<lparr> m_mutex := pthread_mutex_lock (m_mutex m) err \<rparr>) tid err)))"













subsection \<open>wxConditionInternal\<close>

text \<open>
  Each member function makes one native call on the condition and converts its result
  \<open>err\<close>. \<open>WaitTimeout\<close> first turns the current time plus \<open>milliseconds\<close>
  into the absolute deadline it hands to \<open>pthread_cond_timedwait\<close>.
\<close>

definition wxConditionInternal_Wait :: "int \<Rightarrow> wxCondError" where
  "wxConditionInternal_Wait err = (if err \<noteq> 0 then wxCOND_MISC_ERROR else wxCOND_NO_ERROR)"

definition wxConditionInternal_WaitTimeout :: "int \<Rightarrow> wxCondError" where
  "wxConditionInternal_WaitTimeout err =
     (if err = ETIMEDOUT then wxCOND_TIMEOUT
      else if err = 0 then wxCOND_NO_ERROR
      else wxCOND_MISC_ERROR)"

definition wxConditionInternal_Signal :: "int \<Rightarrow> wxCondError" where
  "wxConditionInternal_Signal err = (if err \<noteq> 0 then wxCOND_MISC_ERROR else wxCOND_NO_ERROR)"

definition wxConditionInternal_Broadcast :: "int \<Rightarrow> wxCondError" where
  "wxConditionInternal_Broadcast err = (if err \<noteq> 0 then wxCOND_MISC_ERROR else wxCOND_NO_ERROR)"

subsection \<open>wxSemaphoreInternal\<close>

record wxSemaphoreInternal =
  m_count :: size_t
  m_maxcount :: size_t
  m_isOk_sem :: bool

text \<open>
  What a member function does besides returning: the scope of its
  \<open>wxMutexLocker locker(m_mutex)\<close> (the mutex is taken where the locker is declared
  and released where the function returns), the writes to \<open>m_count\<close> and the calls
  on \<open>m_cond\<close>, in program order.
\<close>

datatype sem_event =
    MutexLocker_enter
  | MutexLocker_leave
  | Count_write size_t
  | Cond_Wait
  | Cond_WaitTimeout ulong
  | Cond_Signal

text \<open>
  The constructor. \<open>mem\<close> is the storage of the object as the constructor finds it:
  no member has an initialiser, so a member the body does not assign keeps what the
  storage held. \<open>mutex_IsOk\<close> and \<open>cond_IsOk\<close> are \<open>m_mutex.IsOk()\<close> and
  \<open>m_cond.IsOk()\<close> of the two members, built before the body runs.
\<close>

definition wxSemaphoreInternal_ctor ::
  "wxSemaphoreInternal \<Rightarrow> cint \<Rightarrow> cint \<Rightarrow> bool \<Rightarrow> bool \<Rightarrow> wxSemaphoreInternal" where
  "wxSemaphoreInternal_ctor mem initialcount maxcount mutex_IsOk cond_IsOk =
     (let s1 = (if (initialcount <s 0 \<or> maxcount <s 0) \<or>
                   (0 <s maxcount \<and> maxcount <s initialcount)
                then mem\<lparr> m_isOk_sem := False \<rparr>
                else mem\<lparr> m_maxcount := scast maxcount, m_count := scast initialcount \<rparr>)
      in s1\<lparr> m_isOk_sem := (mutex_IsOk \<and> cond_IsOk) \<rparr>)"

definition TryWait ::
  "wxSemaphoreInternal \<Rightarrow> wxSemaError \<times> wxSemaphoreInternal \<times> sem_event list" where
  "TryWait s =
     (if m_count s = 0
      then (wxSEMA_BUSY, s, [MutexLocker_enter, MutexLocker_leave])
      else (wxSEMA_NO_ERROR, s\<lparr> m_count := m_count s - 1 \<rparr>,
            [MutexLocker_enter, Count_write (m_count s - 1), MutexLocker_leave]))"

text \<open>\<open>Post()\<close>; \<open>err\<close> is what \<open>pthread_cond_signal\<close> returned.\<close>

definition Post ::
  "wxSemaphoreInternal \<Rightarrow> int \<Rightarrow> wxSemaError \<times> wxSemaphoreInternal \<times> sem_event list" where
  "Post s err =
     (if 0 < m_maxcount s \<and> m_count s = m_maxcount s
      then (wxSEMA_OVERFLOW, s, [MutexLocker_enter, MutexLocker_leave])
      else ((if wxConditionInternal_Signal err = wxCOND_NO_ERROR
             then wxSEMA_NO_ERROR else wxSEMA_MISC_ERROR),
            s\<lparr> m_count := m_count s + 1 \<rparr>,
            [MutexLocker_enter, Count_write (m_count s + 1), Cond_Signal, MutexLocker_leave]))"

text \<open>
  While a thread is blocked inside \<open>m_cond.Wait()\<close> the mutex is released and other
  threads run member functions of the same semaphore: a \<open>Post()\<close>, or a
  \<open>Wait()\<close>, \<open>TryWait()\<close> or \<open>WaitTimeout()\<close> that takes a unit when there is
  one. The environment of a blocked thread is the list of those calls.
\<close>

datatype sem_env = Env_Post int | Env_Take

fun interfere :: "wxSemaphoreInternal \<Rightarrow> sem_env \<Rightarrow> wxSemaphoreInternal" where
  "interfere s (Env_Post err) = fst (snd (Post s err))"
| "interfere s Env_Take = fst (snd (TryWait s))"

text \<open>
  \<open>Wait()\<close>. Each element of \<open>ws\<close> is one return of \<open>m_cond.Wait()\<close>: the
  result of \<open>pthread_cond_wait\<close> and what the other threads did meanwhile. When
  \<open>m_count\<close> is 0 and no return is left, the thread stays blocked.
\<close>

fun Wait_loop ::
  "wxSemaphoreInternal \<Rightarrow> (int \<times> sem_env list) list \<Rightarrow>
   (wxSemaError \<times> wxSemaphoreInternal \<times> sem_event list) option" where
  "Wait_loop s [] =
     (if m_count s = 0 then None
      else Some (wxSEMA_NO_ERROR, s\<lparr> m_count := m_count s - 1 \<rparr>, [Count_write (m_count s - 1)]))"
| "Wait_loop s ((err, env) # ws) =
     (if m_count s = 0 then
        (if wxConditionInternal_Wait err \<noteq> wxCOND_NO_ERROR
         then Some (wxSEMA_MISC_ERROR, foldl interfere s env, [Cond_Wait])
         else (case Wait_loop (foldl interfere s env) ws of
                 None \<Rightarrow> None
               | Some (r, s', tr) \<Rightarrow> Some (r, s', Cond_Wait # tr)))
      else Some (wxSEMA_NO_ERROR, s\<lparr> m_count := m_count s - 1 \<rparr>, [Count_write (m_count s - 1)]))"

definition Wait ::
  "wxSemaphoreInternal \<Rightarrow> (int \<times> sem_env list) list \<Rightarrow>
   (wxSemaError \<times> wxSemaphoreInternal \<times> sem_event list) option" where
  "Wait s ws =
     (case Wait_loop s ws of
        None \<Rightarrow> None
      | Some (r, s', tr) \<Rightarrow> Some (r, s', [MutexLocker_enter] @ tr @ [MutexLocker_leave]))"

text \<open>
  \<open>WaitTimeout(milliseconds)\<close>. Each element of \<open>ws\<close> is one turn of the loop:
  \<open>elapsed.GetLo()\<close> as the clock gives it, the result of
  \<open>pthread_cond_timedwait\<close>, and what the other threads did during the wait.
  \<open>remainingTime\<close> is a \<open>long\<close>. With \<open>m_count\<close> 0 and no turn left the call has
  not returned within the environment given.
\<close>

fun WaitTimeout_loop ::
  "wxSemaphoreInternal \<Rightarrow> ulong \<Rightarrow> (ulong \<times> int \<times> sem_env list) list \<Rightarrow>
   (wxSemaError \<times> wxSemaphoreInternal \<times> sem_event list) option" where
  "WaitTimeout_loop s milliseconds [] =
     (if m_count s = 0 then None
      else Some (wxSEMA_NO_ERROR, s\<lparr> m_count := m_count s - 1 \<rparr>, [Count_write (m_count s - 1)]))"
| "WaitTimeout_loop s milliseconds ((elapsedLo, err, env) # ws) =
     (if m_count s = 0 then
        (let remainingTime = milliseconds - elapsedLo in
         if remainingTime \<le>s 0 then Some (wxSEMA_TIMEOUT, s, [])
         else (case wxConditionInternal_WaitTimeout err of
                 wxCOND_TIMEOUT \<Rightarrow>
                   Some (wxSEMA_TIMEOUT, foldl interfere s env, [Cond_WaitTimeout remainingTime])
               | wxCOND_NO_ERROR \<Rightarrow>
                   (case WaitTimeout_loop (foldl interfere s env) milliseconds ws of
                      None \<Rightarrow> None
                    | Some (r, s', tr) \<Rightarrow> Some (r, s', Cond_WaitTimeout remainingTime # tr))
               | _ \<Rightarrow>
                   Some (wxSEMA_MISC_ERROR, foldl interfere s env, [Cond_WaitTimeout remainingTime])))
      else Some (wxSEMA_NO_ERROR, s\<lparr> m_count := m_count s - 1 \<rparr>, [Count_write (m_count s - 1)]))"

definition WaitTimeout ::
  "wxSemaphoreInternal \<Rightarrow> ulong \<Rightarrow> (ulong \<times> int \<times> sem_env list) list \<Rightarrow>
   (wxSemaError \<times> wxSemaphoreInternal \<times> sem_event list) option" where
  "WaitTimeout s milliseconds ws =
     (case WaitTimeout_loop s milliseconds ws of
        None \<Rightarrow> None
      | Some (r, s', tr) \<Rightarrow> Some (r, s', [MutexLocker_enter] @ tr @ [MutexLocker_leave]))"

text \<open>The invariant of the counter: bounded by \<open>m_maxcount\<close> when that is not 0.\<close>

definition sem_inv :: "wxSemaphoreInternal \<Rightarrow> bool" where
  "sem_inv s = (0 < m_maxcount s \<longrightarrow> 0 \<le> m_count s \<and> m_count s \<le> m_maxcount s)"

text \<open>The argument pairs the constructor accepts.\<close>

definition valid_args :: "cint \<Rightarrow> cint \<Rightarrow> bool" where
  "valid_args initialcount maxcount =
     (\<not> ((initialcount <s 0 \<or> maxcount <s 0) \<or> (0 <s maxcount \<and> maxcount <s initialcount)))"

subsection \<open>wxThreadInternal and wxThread\<close>

datatype wxThreadKind = wxTHREAD_DETACHED | wxTHREAD_JOINABLE

record wxThreadInternal =
  m_threadId :: ulong
  m_state :: wxThreadState
  m_prio :: int
  m_created :: bool
  m_cancelled :: bool
  m_isPaused :: bool
  m_exitcode :: ExitCode
  m_shouldBeJoined :: bool
  m_isDetached :: bool
  m_semRun :: wxSemaphoreInternal
  m_semSuspend :: wxSemaphoreInternal

text \<open>
  The part of \<open>wxThread\<close> the file uses: the pointer to its internal object, kept as
  the object itself, and the \<open>m_isDetached\<close> member of \<open>wxThread\<close>.
\<close>

record wxThread =
  m_internal :: wxThreadInternal
  wxThread_m_isDetached :: bool

text \<open>
  What a member function does besides returning, in program order: the critical
  sections it enters, the native calls, the semaphore calls, the calls into user code
  (\<open>CallEntry\<close>, \<open>OnExit\<close>, \<open>OnDelete\<close>) and the destruction of a thread
  object, named by its address.
\<close>

datatype event =
    Enter_critsect
  | Leave_critsect
  | Enter_csJoinFlag
  | Leave_csJoinFlag
  | Call_pthread_setspecific
  | Call_pthread_create
  | Call_pthread_join
  | Call_pthread_exit ExitCode
  | Call_pthread_key_delete
  | Post_semRun
  | Wait_semRun
  | Post_semSuspend
  | CallEntry
  | Call_OnExit
  | Call_OnDelete
  | Call_wxMutexGuiLeave
  | Call_wxMutexGuiEnter
  | Call_Delete nat
  | Destroy nat
  | Wait_condAllDeleted
  | Signal_condAllDeleted
  | Delete_mutexAllThreads
  | Unlock_mutexGui
  | Delete_mutexGui
  | Delete_condAllDeleted
  | Delete_mutexDeleteThread

abbreviation wxPRIORITY_DEFAULT :: int where "wxPRIORITY_DEFAULT \<equiv> 50"

text \<open>
  The constructor of \<open>wxThreadInternal\<close>. The two semaphores are members built by
  their own default constructor before the body runs; they are parameters here.
\<close>

definition wxThreadInternal_ctor ::
  "wxSemaphoreInternal \<Rightarrow> wxSemaphoreInternal \<Rightarrow> wxThreadInternal" where
  "wxThreadInternal_ctor semRun semSuspend =
     \<lparr> m_threadId = 0, m_state = STATE_NEW, m_prio = wxPRIORITY_DEFAULT,
       m_created = False, m_cancelled = False, m_isPaused = False, m_exitcode = 0,
       m_shouldBeJoined = True, m_isDetached = False,
       m_semRun = semRun, m_semSuspend = semSuspend \<rparr>"

definition SignalRun :: "wxThreadInternal \<Rightarrow> int \<Rightarrow> wxThreadInternal" where
  "SignalRun ti err = ti\<lparr> m_semRun := fst (snd (Post (m_semRun ti) err)) \<rparr>"

definition Detach :: "wxThreadInternal \<Rightarrow> wxThreadInternal" where
  "Detach ti = ti\<lparr> m_shouldBeJoined := False, m_isDetached := True \<rparr>"

text \<open>
  \<open>wxThreadInternal::Create\<close>. \<open>detached\<close> is \<open>thread->IsDetached()\<close>;
  \<open>pc\<close> is the result of \<open>pthread_create\<close> and the id it stored. The scheduling
  priority and the stack size only go into the attribute handed to
  \<open>pthread_create\<close>.
\<close>

definition wxThreadInternal_Create ::
  "wxThreadInternal \<Rightarrow> bool \<Rightarrow> int \<times> ulong \<Rightarrow> wxThreadError \<times> wxThreadInternal \<times> event list" where
  "wxThreadInternal_Create ti detached pc =
     (if m_state ti \<noteq> STATE_NEW then (wxTHREAD_RUNNING, ti, [])
      else
        (let ti1 = (if detached then Detach ti else ti);
             tr = (if detached then [Enter_csJoinFlag, Leave_csJoinFlag] else [])
                  @ [Call_pthread_create]
         in if fst pc \<noteq> 0
            then (wxTHREAD_NO_RESOURCE, ti1\<lparr> m_state := STATE_EXITED \<rparr>, tr)
            else (wxTHREAD_NO_ERROR, ti1\<lparr> m_threadId := snd pc, m_created := True \<rparr>, tr)))"

text \<open>\<open>wxThreadInternal::Run\<close>; \<open>err\<close> is the result of the signal inside \<open>Post()\<close>.\<close>

definition wxThreadInternal_Run ::
  "wxThreadInternal \<Rightarrow> int \<Rightarrow> wxThreadError \<times> wxThreadInternal \<times> event list" where
  "wxThreadInternal_Run ti err =
     (wxTHREAD_NO_ERROR, SignalRun (ti\<lparr> m_state := STATE_RUNNING \<rparr>) err, [Post_semRun])"

text \<open>
  \<open>wxThreadInternal::Wait\<close>. \<open>is_main\<close> is \<open>wxThread::IsMain()\<close> of the caller;
  \<open>join\<close> is what \<open>pthread_join\<close> gives when it is called: \<open>None\<close> when it never
  returns, else its result and the value it stores into \<open>m_exitcode\<close> on success.
\<close>

definition wxThreadInternal_Wait ::
  "wxThreadInternal \<Rightarrow> bool \<Rightarrow> (int \<times> ExitCode) option \<Rightarrow> (wxThreadInternal \<times> event list) option" where
  "wxThreadInternal_Wait ti is_main join =
     (let pre = (if is_main then [Call_wxMutexGuiLeave] else []) @ [Enter_csJoinFlag];
          post = [Leave_csJoinFlag] @ (if is_main then [Call_wxMutexGuiEnter] else [])
      in if m_shouldBeJoined ti then
           (case join of
              None \<Rightarrow> None
            | Some (err, v) \<Rightarrow>
                Some ((if err = 0 then ti\<lparr> m_exitcode := v \<rparr> else ti)\<lparr> m_shouldBeJoined := False \<rparr>,
                      pre @ [Call_pthread_join] @ post))
         else Some (ti, pre @ post))"

definition wxThreadInternal_Resume ::
  "wxThreadInternal \<Rightarrow> int \<Rightarrow> wxThreadInternal \<times> event list" where
  "wxThreadInternal_Resume ti err =
     (if m_isPaused ti
      then (ti\<lparr> m_semSuspend := fst (snd (Post (m_semSuspend ti) err)),
                m_isPaused := False, m_state := STATE_RUNNING \<rparr>, [Post_semSuspend])
      else (ti\<lparr> m_state := STATE_RUNNING \<rparr>, []))"

definition wxThread_Create ::
  "wxThread \<Rightarrow> int \<times> ulong \<Rightarrow> wxThreadError \<times> wxThread \<times> event list" where
  "wxThread_Create t pc =
     (case wxThreadInternal_Create (m_internal t) (wxThread_m_isDetached t) pc of
        (rv, ti, tr) \<Rightarrow> (rv, t\<lparr> m_internal := ti \<rparr>, [Enter_critsect] @ tr @ [Leave_critsect]))"

text \<open>\<open>wxThread::Run\<close>: the thread is created first when it was not yet.\<close>

definition wxThread_Run ::
  "wxThread \<Rightarrow> int \<times> ulong \<Rightarrow> int \<Rightarrow> wxThreadError \<times> wxThread \<times> event list" where
  "wxThread_Run t pc err =
     (if \<not> m_created (m_internal t) then
        (case wxThreadInternal_Create (m_internal t) (wxThread_m_isDetached t) pc of
           (rv, ti, tr) \<Rightarrow>
             if rv \<noteq> wxTHREAD_NO_ERROR
             then (rv, t\<lparr> m_internal := ti \<rparr>, [Enter_critsect] @ tr @ [Leave_critsect])
             else (case wxThreadInternal_Run ti err of
                     (rv', ti', tr') \<Rightarrow>
                       (rv', t\<lparr> m_internal := ti' \<rparr>, [Enter_critsect] @ tr @ tr' @ [Leave_critsect])))
      else
        (case wxThreadInternal_Run (m_internal t) err of
           (rv', ti', tr') \<Rightarrow> (rv', t\<lparr> m_internal := ti' \<rparr>, [Enter_critsect] @ tr' @ [Leave_critsect])))"

definition wxThread_Pause :: "wxThread \<Rightarrow> wxThreadError \<times> wxThread \<times> event list" where
  "wxThread_Pause t =
     (if m_state (m_internal t) \<noteq> STATE_RUNNING
      then (wxTHREAD_NOT_RUNNING, t, [Enter_critsect, Leave_critsect])
      else (wxTHREAD_NO_ERROR, t\<lparr> m_internal := (m_internal t)\<lparr> m_state := STATE_PAUSED \<rparr> \<rparr>,
            [Enter_critsect, Leave_critsect]))"

definition wxThread_Resume :: "wxThread \<Rightarrow> int \<Rightarrow> wxThreadError \<times> wxThread \<times> event list" where
  "wxThread_Resume t err =
     (case m_state (m_internal t) of
        STATE_PAUSED \<Rightarrow>
          (case wxThreadInternal_Resume (m_internal t) err of
             (ti, tr) \<Rightarrow> (wxTHREAD_NO_ERROR, t\<lparr> m_internal := ti \<rparr>,
                          [Enter_critsect] @ tr @ [Leave_critsect]))
      | STATE_EXITED \<Rightarrow> (wxTHREAD_NO_ERROR, t, [Enter_critsect, Leave_critsect])
      | _ \<Rightarrow> (wxTHREAD_MISC_ERROR, t, [Enter_critsect, Leave_critsect]))"

text \<open>\<open>wxThread::Wait\<close>: the join, then the exit code the object holds.\<close>

definition wxThread_Wait ::
  "wxThread \<Rightarrow> bool \<Rightarrow> (int \<times> ExitCode) option \<Rightarrow> (ExitCode \<times> wxThread \<times> event list) option" where
  "wxThread_Wait t is_main join =
     (case wxThreadInternal_Wait (m_internal t) is_main join of
        None \<Rightarrow> None
      | Some (ti, tr) \<Rightarrow> Some (m_exitcode ti, t\<lparr> m_internal := ti \<rparr>, tr))"

text \<open>
  What the native thread writes into its object when the entry function returns
  \<open>code\<close>: \<open>PthreadStart\<close> stores the code in \<open>m_exitcode\<close> and sets the state
  to \<open>STATE_EXITED\<close>, and \<open>Exit\<close> of a Joinable thread stores the state once more.
\<close>

definition entry_returns :: "wxThread \<Rightarrow> ExitCode \<Rightarrow> wxThread" where
  "entry_returns t code =
     t\<lparr> m_internal := (m_internal t)\<lparr> m_exitcode := code, m_state := STATE_EXITED \<rparr> \<rparr>"

text \<open>
  Successive calls of \<open>Wait()\<close> on one thread, each with its caller and its join.
  Between two calls the thread itself may still be running, and its entry function may
  return: that is the second kind of step. The codes are those the calls return, the
  trace is that of the callers.
\<close>

datatype wait_step =
    Step_Wait bool "(int \<times> ExitCode) option"
  | Step_entry_returns ExitCode

fun Wait_calls ::
  "wxThread \<Rightarrow> wait_step list \<Rightarrow> (ExitCode list \<times> wxThread \<times> event list) option" where
  "Wait_calls t [] = Some ([], t, [])"
| "Wait_calls t (Step_Wait is_main join # cs) =
     (case wxThread_Wait t is_main join of
        None \<Rightarrow> None
      | Some (c, t', tr) \<Rightarrow>
          (case Wait_calls t' cs of
             None \<Rightarrow> None
           | Some (codes, t'', tr') \<Rightarrow> Some (c # codes, t'', tr @ tr')))"
| "Wait_calls t (Step_entry_returns code # cs) = Wait_calls (entry_returns t code) cs"

text \<open>
  \<open>wxThread::Delete(rc)\<close>. \<open>want_rc\<close> says whether \<open>rc\<close> is not null; the second
  component of the result is what is stored through it. \<open>err\<close> is the result of the
  signal inside the semaphore post the call makes, \<open>join\<close> as for \<open>Wait\<close>.
  \<open>Delete_default\<close> is the code under the \<open>default:\<close> label of its switch, which
  the \<open>STATE_PAUSED\<close> case falls into: \<open>ti\<close> is the internal object and \<open>tr\<close>
  the trace so far.
\<close>

definition Delete_default ::
  "wxThread \<Rightarrow> wxThreadInternal \<Rightarrow> event list \<Rightarrow> bool \<Rightarrow> bool \<Rightarrow> (int \<times> ExitCode) option \<Rightarrow>
   (wxThreadError \<times> ExitCode option \<times> wxThread \<times> event list) option" where
  "Delete_default t ti tr want_rc is_main join =
     (if \<not> wxThread_m_isDetached t then
        (case wxThreadInternal_Wait ti is_main join of
           None \<Rightarrow> None
         | Some (ti', tr') \<Rightarrow>
             Some (wxTHREAD_NO_ERROR, (if want_rc then Some (m_exitcode ti') else None),
                   t\<lparr> m_internal := ti' \<rparr>, tr @ tr'))
      else Some (wxTHREAD_NO_ERROR, None, t\<lparr> m_internal := ti \<rparr>, tr))"

definition Delete ::
  "wxThread \<Rightarrow> bool \<Rightarrow> bool \<Rightarrow> int \<Rightarrow> (int \<times> ExitCode) option \<Rightarrow>
   (wxThreadError \<times> ExitCode option \<times> wxThread \<times> event list) option" where
  "Delete t want_rc is_main err join =
     (let state = m_state (m_internal t);
          ti1 = (m_internal t)\<lparr> m_cancelled := True \<rparr>;
          tr1 = [Enter_critsect, Leave_critsect, Call_OnDelete]
      in case state of
           STATE_NEW \<Rightarrow>
             Some (wxTHREAD_MISC_ERROR, None, t\<lparr> m_internal := SignalRun ti1 err \<rparr>,
                   tr1 @ [Post_semRun])
         | STATE_EXITED \<Rightarrow> Some (wxTHREAD_NO_ERROR, None, t\<lparr> m_internal := ti1 \<rparr>, tr1)
         | STATE_PAUSED \<Rightarrow>
             (case wxThreadInternal_Resume ti1 err of
                (ti2, tr2) \<Rightarrow> Delete_default t ti2 (tr1 @ tr2) want_rc is_main join)
         | STATE_RUNNING \<Rightarrow> Delete_default t ti1 tr1 want_rc is_main join)"

subsection \<open>The globals of the file, and the functions that use them\<close>

text \<open>
  \<open>gs_allThreads\<close> is the array of pointers to the live thread objects,
  \<open>gs_nThreadsBeingDeleted\<close> the counter of threads being deleted. \<open>objects\<close> is
  the store the pointers point into: the thread object at an address, \<open>None\<close> once it
  was deleted.
\<close>

record process =
  gs_allThreads :: "nat list"
  gs_nThreadsBeingDeleted :: size_t
  objects :: "nat \<Rightarrow> wxThread option"

text \<open>
  The result of a function that follows pointers and may block: it completed, it never
  returns, or it used a pointer to a deleted object or an array index out of range.
\<close>

datatype 'a outcome = Done 'a | Blocked | Undefined

text \<open>
  The constructor of \<open>wxThread\<close>, at the address \<open>this\<close>: the object is added to
  \<open>gs_allThreads\<close> and starts with a fresh internal object.
\<close>

definition wxThread_ctor ::
  "process \<Rightarrow> nat \<Rightarrow> wxThreadKind \<Rightarrow> wxSemaphoreInternal \<Rightarrow> wxSemaphoreInternal \<Rightarrow> process" where
  "wxThread_ctor w this kind semRun semSuspend =
     w\<lparr> gs_allThreads := gs_allThreads w @ [this],
        objects := (objects w)(this \<mapsto>
          \<lparr> m_internal = wxThreadInternal_ctor semRun semSuspend,
            wxThread_m_isDetached = (kind = wxTHREAD_DETACHED) \<rparr>) \<rparr>"

text \<open>The destructor: the internal object is deleted and the entry removed from the array.\<close>

definition wxThread_dtor :: "process \<Rightarrow> nat \<Rightarrow> process" where
  "wxThread_dtor w this =
     w\<lparr> gs_allThreads := remove1 this (gs_allThreads w),
        objects := (objects w)(this := None) \<rparr>"

definition ScheduleThreadForDeletion :: "process \<Rightarrow> process" where
  "ScheduleThreadForDeletion w =
     w\<lparr> gs_nThreadsBeingDeleted := gs_nThreadsBeingDeleted w + 1 \<rparr>"

definition DeleteThread :: "process \<Rightarrow> nat \<Rightarrow> process \<times> event list" where
  "DeleteThread w This =
     (let w1 = wxThread_dtor w This;
          n = gs_nThreadsBeingDeleted w1 - 1
      in (w1\<lparr> gs_nThreadsBeingDeleted := n \<rparr>,
          [Destroy This] @ (if n = 0 then [Signal_condAllDeleted] else [])))"

text \<open>
  \<open>wxThread::Exit(status)\<close>, which ends in \<open>pthread_exit(status)\<close>: the result is
  the process as the thread leaves it.
\<close>

definition Exit :: "process \<Rightarrow> nat \<Rightarrow> ExitCode \<Rightarrow> (process \<times> event list) outcome" where
  "Exit w this status =
     (case objects w this of
        None \<Rightarrow> Undefined
      | Some t \<Rightarrow>
          if wxThread_m_isDetached t then
            (case DeleteThread (ScheduleThreadForDeletion w) this of
               (w', tr) \<Rightarrow>
                 Done (w', [Call_OnExit] @ tr @ [Call_pthread_setspecific, Call_pthread_exit status]))
          else
            Done (w\<lparr> objects := (objects w)(this \<mapsto>
                        t\<lparr> m_internal := (m_internal t)\<lparr> m_state := STATE_EXITED \<rparr> \<rparr>) \<rparr>,
                  [Call_OnExit, Enter_critsect, Leave_critsect, Call_pthread_exit status]))"

text \<open>
  \<open>wxThreadInternal::PthreadStart(thread)\<close>, the entry function of the new native
  thread. \<open>rc\<close> is the result of \<open>pthread_setspecific\<close>, \<open>ws\<close> the returns of
  the condition wait inside \<open>m_semRun.Wait()\<close>, \<open>entry\<close> what
  \<open>thread->CallEntry()\<close> returns, \<open>None\<close> when the user code never returns. The
  first component of the result is the value the native thread ends with.
\<close>

definition PthreadStart ::
  "process \<Rightarrow> nat \<Rightarrow> int \<Rightarrow> (int \<times> sem_env list) list \<Rightarrow> ExitCode option \<Rightarrow>
   (ExitCode \<times> process \<times> event list) outcome" where
  "PthreadStart w thread rc ws entry =
     (case objects w thread of
        None \<Rightarrow> Undefined
      | Some t \<Rightarrow>
          if rc \<noteq> 0 then Done (- 1, w, [Call_pthread_setspecific])
          else
            (case Wait (m_semRun (m_internal t)) ws of
               None \<Rightarrow> Blocked
             | Some (_, sem, _) \<Rightarrow>
                 (let pthread = (m_internal t)\<lparr> m_semRun := sem \<rparr>;
                      dontRunAtAll = (m_state pthread = STATE_NEW \<and> m_cancelled pthread);
                      tr1 = [Call_pthread_setspecific, Wait_semRun, Enter_critsect, Leave_critsect]
                  in if \<not> dontRunAtAll then
                       (case entry of
                          None \<Rightarrow> Blocked
                        | Some code \<Rightarrow>
                            (let pthread' = pthread\<lparr> m_exitcode := code, m_state := STATE_EXITED \<rparr>;
                                 w1 = w\<lparr> objects := (objects w)(thread \<mapsto> t\<lparr> m_internal := pthread' \<rparr>) \<rparr>
                             in case Exit w1 thread (m_exitcode pthread') of
                                  Done (w2, tr2) \<Rightarrow>
                                    Done (m_exitcode pthread', w2,
                                          tr1 @ [CallEntry, Enter_critsect, Leave_critsect] @ tr2)
                                | Blocked \<Rightarrow> Blocked
                                | Undefined \<Rightarrow> Undefined))
                     else
                       (let w1 = w\<lparr> objects := (objects w)(thread \<mapsto> t\<lparr> m_internal := pthread \<rparr>) \<rparr>
                        in Done (EXITCODE_CANCELLED, wxThread_dtor w1 thread, tr1 @ [Destroy thread])))))"

text \<open>
  What other threads do to the globals while the thread of \<open>OnExit\<close> is blocked or
  between two of its steps: a detached thread ends through \<open>DeleteThread\<close>, or a
  thread object is destroyed in another way.
\<close>

datatype process_env = Env_DeleteThread nat | Env_delete nat

fun disturb :: "process \<Rightarrow> process_env \<Rightarrow> process" where
  "disturb w (Env_DeleteThread p) = fst (DeleteThread w p)"
| "disturb w (Env_delete p) = wxThread_dtor w p"

text \<open>
  The loop of \<open>wxThreadModule::OnExit\<close>: \<open>k\<close> turns are left, \<open>n\<close> is the loop
  variable. Turn \<open>n\<close> gets from \<open>orc n\<close> the results of the native calls inside
  \<open>Delete()\<close> and what the other threads do before the next turn.
\<close>

fun OnExit_loop ::
  "nat \<Rightarrow> nat \<Rightarrow> process \<Rightarrow> bool \<Rightarrow> (nat \<Rightarrow> int \<times> (int \<times> ExitCode) option \<times> process_env list) \<Rightarrow>
   (process \<times> event list) outcome" where
  "OnExit_loop 0 n w is_main orc = Done (w, [])"
| "OnExit_loop (Suc k) n w is_main orc =
     (case gs_allThreads w of
        [] \<Rightarrow> Undefined
      | p # _ \<Rightarrow>
          (case objects w p of
             None \<Rightarrow> Undefined
           | Some t \<Rightarrow>
               (case orc n of
                  (err, join, env) \<Rightarrow>
                    (case Delete t False is_main err join of
                       None \<Rightarrow> Blocked
                     | Some (_, _, t', tr) \<Rightarrow>
                         (case OnExit_loop k (Suc n)
                                 (foldl disturb (w\<lparr> objects := (objects w)(p \<mapsto> t') \<rparr>) env)
                                 is_main orc of
                            Done (w', tr') \<Rightarrow> Done (w', [Call_Delete p] @ tr @ tr')
                          | Blocked \<Rightarrow> Blocked
                          | Undefined \<Rightarrow> Undefined)))))"

text \<open>
  \<open>wxThreadModule::OnExit\<close>. \<open>wake\<close> is what the other threads did before
  \<open>gs_condAllDeleted->Wait()\<close> returned, or \<open>None\<close> when it never returns.
\<close>

definition OnExit ::
  "process \<Rightarrow> bool \<Rightarrow> process_env list option \<Rightarrow>
   (nat \<Rightarrow> int \<times> (int \<times> ExitCode) option \<times> process_env list) \<Rightarrow>
   (process \<times> event list) outcome" where
  "OnExit w is_main wake orc =
     (let nThreadsBeingDeleted = gs_nThreadsBeingDeleted w
      in case (if 0 < nThreadsBeingDeleted
               then (case wake of
                       None \<Rightarrow> None
                     | Some env \<Rightarrow> Some (foldl disturb w env, [Wait_condAllDeleted]))
               else Some (w, [])) of
           None \<Rightarrow> Blocked
         | Some (w1, tr1) \<Rightarrow>
             (let count = length (gs_allThreads w1)
              in case OnExit_loop count 0 w1 is_main orc of
                   Done (w2, tr2) \<Rightarrow>
                     Done (w2, tr1 @ tr2 @
                           [Delete_mutexAllThreads, Unlock_mutexGui, Delete_mutexGui,
                            Call_pthread_key_delete, Delete_condAllDeleted,
                            Delete_mutexDeleteThread])
                 | Blocked \<Rightarrow> Blocked
                 | Undefined \<Rightarrow> Undefined))"

subsection \<open>Reading a semaphore trace\<close>

text \<open>
  \<open>under_locker False tr\<close>: in \<open>tr\<close> every write of the counter and every call on
  the condition happens between a \<open>MutexLocker_enter\<close> and the
  \<open>MutexLocker_leave\<close> that follows it, and the mutex is released at the end.
\<close>

fun under_locker :: "bool \<Rightarrow> sem_event list \<Rightarrow> bool" where
  "under_locker held [] = (\<not> held)"
| "under_locker held (MutexLocker_enter # tr) = (\<not> held \<and> under_locker True tr)"
| "under_locker held (MutexLocker_leave # tr) = (held \<and> under_locker False tr)"
| "under_locker held (e # tr) = (held \<and> under_locker held tr)"

subsection \<open>Example objects\<close>

text \<open>
  A start gate and a pause gate as the spec describes them, \<open>CountingSemaphore(0,1)\<close>,
  and a process that has no thread yet.
\<close>

definition gate :: wxSemaphoreInternal where
  "gate = \<lparr> m_count = 0, m_maxcount = 1, m_isOk_sem = True \<rparr>"

definition no_threads :: process where
  "no_threads = \<lparr> gs_allThreads = [], gs_nThreadsBeingDeleted = 0, objects = (\<lambda>_. None) \<rparr>"

text \<open>
  A Joinable thread object right after its constructor and a successful \<open>Create()\<close>:
  the native thread exists and is blocked on the start gate.
\<close>

definition joinable_created :: wxThread where
  "joinable_created =
     \<lparr> m_internal =
         \<lparr> m_threadId = 101, m_state = STATE_NEW, m_prio = wxPRIORITY_DEFAULT,
           m_created = True, m_cancelled = False, m_isPaused = False, m_exitcode = 0,
           m_shouldBeJoined = True, m_isDetached = False,
           m_semRun = gate, m_semSuspend = gate \<rparr>,
       wxThread_m_isDetached = False \<rparr>"

text \<open>The same thread after \<open>Delete()\<close> was called on it before \<open>Run()\<close>.\<close>

definition joinable_deleted_before_run :: wxThread where
  "joinable_deleted_before_run =
     \<lparr> m_internal =
         \<lparr> m_threadId = 101, m_state = STATE_NEW, m_prio = wxPRIORITY_DEFAULT,
           m_created = True, m_cancelled = True, m_isPaused = False, m_exitcode = 0,
           m_shouldBeJoined = True, m_isDetached = False,
           m_semRun = \<lparr> m_count = 1, m_maxcount = 1, m_isOk_sem = True \<rparr>,
           m_semSuspend = gate \<rparr>,
       wxThread_m_isDetached = False \<rparr>"

text \<open>
  A Joinable and a Detached thread whose entry functions are running: the start gate
  was posted by \<open>Run()\<close> and taken by the entry wrapper.
\<close>

definition joinable_running :: wxThread where
  "joinable_running =
     \<lparr> m_internal =
         \<lparr> m_threadId = 101, m_state = STATE_RUNNING, m_prio = wxPRIORITY_DEFAULT,
           m_created = True, m_cancelled = False, m_isPaused = False, m_exitcode = 0,
           m_shouldBeJoined = True, m_isDetached = False,
           m_semRun = gate, m_semSuspend = gate \<rparr>,
       wxThread_m_isDetached = False \<rparr>"

definition detached_running :: wxThread where
  "detached_running =
     \<lparr> m_internal =
         \<lparr> m_threadId = 102, m_state = STATE_RUNNING, m_prio = wxPRIORITY_DEFAULT,
           m_created = True, m_cancelled = False, m_isPaused = False, m_exitcode = 0,
           m_shouldBeJoined = False, m_isDetached = True,
           m_semRun = gate, m_semSuspend = gate \<rparr>,
       wxThread_m_isDetached = True \<rparr>"

text \<open>
  A process at exit with these two threads registered, the Joinable one first, and no
  thread being deleted.
\<close>

definition two_threads :: process where
  "two_threads =
     \<lparr> gs_allThreads = [1, 2], gs_nThreadsBeingDeleted = 0,
       objects = [1 \<mapsto> joinable_running, 2 \<mapsto> detached_running] \<rparr>"

text \<open>The calls of \<open>Delete()\<close> in a trace, by the address of the thread.\<close>

fun Delete_calls :: "event list \<Rightarrow> nat list" where
  "Delete_calls [] = []"
| "Delete_calls (Call_Delete p # tr) = p # Delete_calls tr"
| "Delete_calls (e # tr) = Delete_calls tr"

section \<open>Properties\<close>

subsection \<open>The mutex\<close>

text \<open>
  Claim C5. On a Default mutex, \<open>Lock()\<close> called by the thread that is the tracked
  owner returns \<open>wxMUTEX_DEAD_LOCK\<close> and leaves the object as it was, whatever the
  native lock would do, also when it would block for ever: the native lock is not
  reached. So a second \<open>Lock()\<close> of a thread after its own successful \<open>Lock()\<close>, with
  no \<open>Unlock()\<close> between them, returns \<open>wxMUTEX_DEAD_LOCK\<close>. The thread id is not 0,
  the value the file keeps for "no owner".
\<close>

theorem Lock_by_owner_DEAD_LOCK:
  assumes "m_type m = wxMUTEX_DEFAULT" and "tid \<noteq> 0"
  shows "(m_owningThread m = tid \<longrightarrow> Lock m tid r = Some (wxMUTEX_DEAD_LOCK, m))
       \<and> (\<forall>m'. Lock m tid (Some 0) = Some (wxMUTEX_NO_ERROR, m')
              \<longrightarrow> Lock m' tid r = Some (wxMUTEX_DEAD_LOCK, m'))"
  using assms by (auto simp: Lock_def HandleLockResult_def split: if_splits)

theorem Lock_by_owner_DEAD_LOCK_witness:
  "Lock (wxMutexInternal_ctor wxMUTEX_DEFAULT 0) 7 (Some 0)
     = Some (wxMUTEX_NO_ERROR,
             \<lparr> m_mutex = 1, m_isOk = True, m_type = wxMUTEX_DEFAULT, m_owningThread = 7 \<rparr>)
   \<and> Lock \<lparr> m_mutex = 1, m_isOk = True, m_type = wxMUTEX_DEFAULT, m_owningThread = 7 \<rparr> 7 None
     = Some (wxMUTEX_DEAD_LOCK,
             \<lparr> m_mutex = 1, m_isOk = True, m_type = wxMUTEX_DEFAULT, m_owningThread = 7 \<rparr>)"
proof -
  have ty: "m_type (wxMutexInternal_ctor wxMUTEX_DEFAULT 0) = wxMUTEX_DEFAULT"
    by (simp add: wxMutexInternal_ctor_def)
  have tid: "(7 :: wxThreadIdType) \<noteq> 0" by simp
  have first: "Lock (wxMutexInternal_ctor wxMUTEX_DEFAULT 0) 7 (Some 0)
     = Some (wxMUTEX_NO_ERROR,
             \<lparr> m_mutex = 1, m_isOk = True, m_type = wxMUTEX_DEFAULT, m_owningThread = 7 \<rparr>)"
    by (simp add: Lock_def wxMutexInternal_ctor_def HandleLockResult_def pthread_mutex_lock_def)
  from Lock_by_owner_DEAD_LOCK [OF ty tid, of None] first show ?thesis by blast
qed








subsection \<open>The semaphore\<close>

text \<open>An \<open>int\<close> that is not negative keeps its value as a \<open>size_t\<close>.\<close>

lemma sint_nonneg_uint:
  fixes a :: "64 word"
  assumes "0 \<le> sint a"
  shows "uint a = sint a"
proof -
  have b: "sint a < 2 ^ 63" using sint_lt [of a] by simp
  have "uint a = uint (word_of_int (sint a) :: 64 word)" by simp
  also have "\<dots> = sint a mod 2 ^ LENGTH(64)" by (rule uint_word_of_int)
  also have "\<dots> = sint a" using assms b by simp
  finally show ?thesis .
qed

lemma sint_scast_up: "sint (scast (i::32 word) :: 64 word) = sint i"
  by (rule sint_up_scast) (simp add: is_up)

lemma scast_nonneg_le:
  fixes i m :: "32 word"
  assumes "0 \<le> sint i" "sint i \<le> sint m"
  shows "(scast i :: 64 word) \<le> scast m"
proof -
  have "uint (scast i :: 64 word) = sint i"
    using assms by (simp add: sint_nonneg_uint sint_scast_up)
  moreover have "uint (scast m :: 64 word) = sint m"
    using assms by (simp add: sint_nonneg_uint sint_scast_up)
  ultimately show ?thesis using assms by (simp add: word_le_def)
qed

lemma ctor_inv:
  assumes "valid_args i m"
  shows "sem_inv (wxSemaphoreInternal_ctor mem i m a b)"
proof -
  have i: "0 \<le> sint i" and m: "0 \<le> sint m" and im: "0 < sint m \<longrightarrow> sint i \<le> sint m"
    using assms by (auto simp: valid_args_def word_sless_alt)
  have eq: "m_count (wxSemaphoreInternal_ctor mem i m a b) = scast i"
      "m_maxcount (wxSemaphoreInternal_ctor mem i m a b) = scast m"
    using assms by (auto simp: valid_args_def wxSemaphoreInternal_ctor_def)
  show ?thesis
  proof (cases "sint m = 0")
    case True
    have "m = word_of_int (sint m)" by simp
    with True have "m = 0" by (simp only: word_of_int_0)
    with eq(2) have "m_maxcount (wxSemaphoreInternal_ctor mem i m a b) = 0" by simp
    then show ?thesis unfolding sem_inv_def by simp
  next
    case False
    with m im have "sint i \<le> sint m" by simp
    with i show ?thesis by (simp add: sem_inv_def eq scast_nonneg_le)
  qed
qed

lemma dec_le: "(c::64 word) \<noteq> 0 \<Longrightarrow> c \<le> m \<Longrightarrow> c - 1 \<le> m"
  by uint_arith

lemma TryWait_inv: "sem_inv s \<Longrightarrow> sem_inv (fst (snd (TryWait s)))"
  by (auto simp: sem_inv_def TryWait_def dec_le)

lemma Post_inv: "sem_inv s \<Longrightarrow> sem_inv (fst (snd (Post s err)))"
  by (auto simp: sem_inv_def Post_def intro!: inc_le)

lemma interfere_inv: "sem_inv s \<Longrightarrow> sem_inv (interfere s e)"
  by (cases e) (simp_all add: TryWait_inv Post_inv)

lemma interfere_all_inv: "sem_inv s \<Longrightarrow> sem_inv (foldl interfere s env)"
  by (induction env arbitrary: s) (simp_all add: interfere_inv)

lemma take_inv: "sem_inv s \<Longrightarrow> m_count s \<noteq> 0 \<Longrightarrow> sem_inv (s\<lparr> m_count := m_count s - 1 \<rparr>)"
  by (auto simp: sem_inv_def dec_le)

lemma Wait_loop_inv: "sem_inv s \<Longrightarrow> Wait_loop s ws = Some (r, s', tr) \<Longrightarrow> sem_inv s'"
proof (induction s ws arbitrary: r s' tr rule: Wait_loop.induct)
  case (1 s)
  then show ?case by (auto simp: take_inv split: if_splits)
next
  case (2 s err env ws)
  show ?case
  proof (cases "m_count s = 0")
    case False
    with "2.prems" show ?thesis by (auto simp: take_inv)
  next
    case True
    note z = this
    show ?thesis
    proof (cases "wxConditionInternal_Wait err \<noteq> wxCOND_NO_ERROR")
      case True
      with z "2.prems" show ?thesis by (auto simp: interfere_all_inv)
    next
      case False
      with z "2.prems" obtain tr' where
        "Wait_loop (foldl interfere s env) ws = Some (r, s', tr')"
        by (auto split: option.splits)
      with "2.IH" [OF z] False "2.prems"(1) show ?thesis
        by (auto simp: interfere_all_inv)
    qed
  qed
qed

lemma WaitTimeout_loop_inv:
  "sem_inv s \<Longrightarrow> WaitTimeout_loop s ms ws = Some (r, s', tr) \<Longrightarrow> sem_inv s'"
proof (induction s ms ws arbitrary: r s' tr rule: WaitTimeout_loop.induct)
  case (1 s ms)
  then show ?case by (auto simp: take_inv split: if_splits)
next
  case (2 s ms elapsedLo err env ws)
  show ?case
  proof (cases "m_count s = 0")
    case False
    with "2.prems" show ?thesis by (auto simp: take_inv)
  next
    case True
    note z = this
    show ?thesis
    proof (cases "ms - elapsedLo \<le>s 0")
      case True
      with z "2.prems" show ?thesis by (auto simp: Let_def)
    next
      case False
      note nz = this
      show ?thesis
      proof (cases "wxConditionInternal_WaitTimeout err")
        case wxCOND_NO_ERROR
        with z nz "2.prems" obtain tr' where
          "WaitTimeout_loop (foldl interfere s env) ms ws = Some (r, s', tr')"
          by (auto simp: Let_def split: option.splits)
        with "2.IH" [OF z refl nz wxCOND_NO_ERROR] "2.prems"(1) show ?thesis
          by (auto simp: interfere_all_inv)
      next
        case wxCOND_INVALID
        with z nz "2.prems" show ?thesis by (auto simp: Let_def interfere_all_inv)
      next
        case wxCOND_TIMEOUT
        with z nz "2.prems" show ?thesis by (auto simp: Let_def interfere_all_inv)
      next
        case wxCOND_MISC_ERROR
        with z nz "2.prems" show ?thesis by (auto simp: Let_def interfere_all_inv)
      qed
    qed
  qed
qed

lemma Wait_inv: "sem_inv s \<Longrightarrow> Wait s ws = Some (r, s', tr) \<Longrightarrow> sem_inv s'"
  by (auto simp: Wait_def split: option.splits dest: Wait_loop_inv)

lemma WaitTimeout_inv: "sem_inv s \<Longrightarrow> WaitTimeout s ms ws = Some (r, s', tr) \<Longrightarrow> sem_inv s'"
  by (auto simp: WaitTimeout_def split: option.splits dest: WaitTimeout_loop_inv)

text \<open>
  Claim C2, as the spec states it, asks for the invariant after construction with any
  argument pair. With the pair \<open>(5, 3)\<close> the constructor assigns neither member, and
  over storage that held \<open>m_count = 7\<close> and \<open>m_maxcount = 2\<close> the invariant fails.
\<close>

theorem sem_inv_counterexample:
  "\<not> sem_inv (wxSemaphoreInternal_ctor \<lparr> m_count = 7, m_maxcount = 2, m_isOk_sem = False \<rparr> 5 3 True True)"
  by (simp add: sem_inv_def wxSemaphoreInternal_ctor_def word_sless_alt)

text \<open>
  Claim C2, amended. After construction with an argument pair the constructor accepts
  (neither negative, and \<open>initialcount \<le> maxcount\<close> when \<open>maxcount > 0\<close>) the
  invariant \<open>0 \<le> m_count \<le> m_maxcount\<close> when \<open>m_maxcount > 0\<close> holds, whatever the
  storage held. And \<open>TryWait()\<close>, \<open>Post()\<close>, and every \<open>Wait()\<close> and
  \<open>WaitTimeout(ms)\<close> that returns, started where the invariant holds, end where it
  holds, whatever the other threads post or take while the caller is blocked.
\<close>

theorem sem_inv_established_and_preserved:
  "(valid_args initialcount maxcount \<longrightarrow>
      sem_inv (wxSemaphoreInternal_ctor mem initialcount maxcount mutex_IsOk cond_IsOk))
   \<and> (sem_inv s \<longrightarrow>
        sem_inv (fst (snd (TryWait s)))
      \<and> sem_inv (fst (snd (Post s err)))
      \<and> (\<forall>r s' tr. Wait s ws = Some (r, s', tr) \<longrightarrow> sem_inv s')
      \<and> (\<forall>r s' tr. WaitTimeout s milliseconds wts = Some (r, s', tr) \<longrightarrow> sem_inv s'))"
  using ctor_inv TryWait_inv Post_inv Wait_inv WaitTimeout_inv by blast

theorem sem_inv_established_and_preserved_witness:
  "valid_args 0 1
   \<and> sem_inv (wxSemaphoreInternal_ctor \<lparr> m_count = 5, m_maxcount = 3, m_isOk_sem = False \<rparr> 0 1 True True)
   \<and> 0 < m_maxcount (wxSemaphoreInternal_ctor \<lparr> m_count = 5, m_maxcount = 3, m_isOk_sem = False \<rparr> 0 1 True True)
   \<and> sem_inv \<lparr> m_count = 0, m_maxcount = 1, m_isOk_sem = True \<rparr>
   \<and> sem_inv (fst (snd (TryWait \<lparr> m_count = 0, m_maxcount = 1, m_isOk_sem = True \<rparr>)))
   \<and> sem_inv (fst (snd (Post \<lparr> m_count = 0, m_maxcount = 1, m_isOk_sem = True \<rparr> 0)))
   \<and> Wait \<lparr> m_count = 0, m_maxcount = 1, m_isOk_sem = True \<rparr> [(0, [Env_Post 0])]
       = Some (wxSEMA_NO_ERROR, \<lparr> m_count = 0, m_maxcount = 1, m_isOk_sem = True \<rparr>,
               [MutexLocker_enter, Cond_Wait, Count_write 0, MutexLocker_leave])
   \<and> WaitTimeout \<lparr> m_count = 0, m_maxcount = 1, m_isOk_sem = True \<rparr> 100
         [(10, 0, []), (20, ETIMEDOUT, [Env_Post 0])]
       = Some (wxSEMA_TIMEOUT, \<lparr> m_count = 1, m_maxcount = 1, m_isOk_sem = True \<rparr>,
               [MutexLocker_enter, Cond_WaitTimeout 90, Cond_WaitTimeout 80, MutexLocker_leave])
   \<and> sem_inv \<lparr> m_count = 1, m_maxcount = 1, m_isOk_sem = True \<rparr>"
  using sem_inv_established_and_preserved
    [of 0 1 "\<lparr> m_count = 5, m_maxcount = 3, m_isOk_sem = False \<rparr>" True True
        "\<lparr> m_count = 0, m_maxcount = 1, m_isOk_sem = True \<rparr>" 0
        "[(0, [Env_Post 0])]" 100 "[(10, 0, []), (20, ETIMEDOUT, [Env_Post 0])]"]
  by (simp add: valid_args_def sem_inv_def wxSemaphoreInternal_ctor_def word_sless_alt
      Wait_def WaitTimeout_def wxConditionInternal_Wait_def wxConditionInternal_WaitTimeout_def
      Post_def TryWait_def wxConditionInternal_Signal_def word_sle_eq)

text \<open>
  Claim C9. Whatever the argument pair, \<open>m_isOk\<close> after the constructor is
  \<open>m_mutex.IsOk() && m_cond.IsOk()\<close>: the \<open>false\<close> stored for a pair the
  constructor rejects is overwritten. For such a pair \<open>m_count\<close> and \<open>m_maxcount\<close>
  are what the storage held.
\<close>

theorem ctor_IsOk_ignores_arguments:
  "m_isOk_sem (wxSemaphoreInternal_ctor mem initialcount maxcount mutex_IsOk cond_IsOk)
     = (mutex_IsOk \<and> cond_IsOk)
   \<and> (\<not> valid_args initialcount maxcount \<longrightarrow>
        m_count (wxSemaphoreInternal_ctor mem initialcount maxcount mutex_IsOk cond_IsOk) = m_count mem
      \<and> m_maxcount (wxSemaphoreInternal_ctor mem initialcount maxcount mutex_IsOk cond_IsOk)
          = m_maxcount mem)"
  by (simp add: wxSemaphoreInternal_ctor_def valid_args_def Let_def)

theorem ctor_IsOk_ignores_arguments_witness:
  "\<not> valid_args 5 3
   \<and> wxSemaphoreInternal_ctor \<lparr> m_count = 7, m_maxcount = 2, m_isOk_sem = False \<rparr> 5 3 True True
       = \<lparr> m_count = 7, m_maxcount = 2, m_isOk_sem = True \<rparr>
   \<and> \<not> valid_args (- 1) 3
   \<and> wxSemaphoreInternal_ctor \<lparr> m_count = 7, m_maxcount = 2, m_isOk_sem = False \<rparr> (- 1) 3 True True
       = \<lparr> m_count = 7, m_maxcount = 2, m_isOk_sem = True \<rparr>"
  using ctor_IsOk_ignores_arguments [of "\<lparr> m_count = 7, m_maxcount = 2, m_isOk_sem = False \<rparr>" 5 3 True True]
    ctor_IsOk_ignores_arguments [of "\<lparr> m_count = 7, m_maxcount = 2, m_isOk_sem = False \<rparr>" "- 1" 3 True True]
  by (simp add: valid_args_def word_sless_alt wxSemaphoreInternal_ctor_def)

lemma unat_inc: "(c::64 word) \<noteq> - 1 \<Longrightarrow> unat (c + 1) = Suc (unat c)"
proof -
  assume a: "c \<noteq> - 1"
  have "1 + c \<noteq> 0"
  proof
    assume "1 + c = 0"
    then have "c = - 1" by (simp add: eq_neg_iff_add_eq_0 add.commute)
    with a show False by simp
  qed
  then have "unat (1 + c) = Suc (unat c)" by (rule unatSuc)
  then show ?thesis by (simp add: add.commute)
qed

text \<open>
  Claim C7. \<open>Post()\<close> on a semaphore with \<open>m_count = m_maxcount > 0\<close> returns
  \<open>wxSEMA_OVERFLOW\<close> and leaves the object as it was. Otherwise it adds 1 to
  \<open>m_count\<close> (as a \<open>size_t\<close>: a true increment unless the counter held the largest
  value), then signals the condition once, and returns \<open>wxSEMA_NO_ERROR\<close> when the
  signal succeeded. The write and the signal, in this order, lie between taking and
  releasing the semaphore's mutex.
\<close>

theorem Post_overflow_or_increment:
  "(0 < m_maxcount s \<and> m_count s = m_maxcount s \<longrightarrow>
       Post s err = (wxSEMA_OVERFLOW, s, [MutexLocker_enter, MutexLocker_leave]))
   \<and> (\<not> (0 < m_maxcount s \<and> m_count s = m_maxcount s) \<longrightarrow>
         fst (Post s err) = (if err = 0 then wxSEMA_NO_ERROR else wxSEMA_MISC_ERROR)
       \<and> fst (snd (Post s err)) = s\<lparr> m_count := m_count s + 1 \<rparr>
       \<and> (m_count s \<noteq> - 1 \<longrightarrow> unat (m_count (fst (snd (Post s err)))) = Suc (unat (m_count s)))
       \<and> snd (snd (Post s err))
           = [MutexLocker_enter, Count_write (m_count s + 1), Cond_Signal, MutexLocker_leave])
   \<and> under_locker False (snd (snd (Post s err)))"
  by (auto simp: Post_def wxConditionInternal_Signal_def unat_inc)

theorem Post_overflow_or_increment_witness:
  "Post \<lparr> m_count = 1, m_maxcount = 1, m_isOk_sem = True \<rparr> 0
     = (wxSEMA_OVERFLOW, \<lparr> m_count = 1, m_maxcount = 1, m_isOk_sem = True \<rparr>,
        [MutexLocker_enter, MutexLocker_leave])
   \<and> Post \<lparr> m_count = 0, m_maxcount = 1, m_isOk_sem = True \<rparr> 0
     = (wxSEMA_NO_ERROR, \<lparr> m_count = 1, m_maxcount = 1, m_isOk_sem = True \<rparr>,
        [MutexLocker_enter, Count_write 1, Cond_Signal, MutexLocker_leave])
   \<and> Post \<lparr> m_count = 4, m_maxcount = 0, m_isOk_sem = True \<rparr> 0
     = (wxSEMA_NO_ERROR, \<lparr> m_count = 5, m_maxcount = 0, m_isOk_sem = True \<rparr>,
        [MutexLocker_enter, Count_write 5, Cond_Signal, MutexLocker_leave])"
  using Post_overflow_or_increment [of "\<lparr> m_count = 1, m_maxcount = 1, m_isOk_sem = True \<rparr>" 0]
    Post_overflow_or_increment [of "\<lparr> m_count = 0, m_maxcount = 1, m_isOk_sem = True \<rparr>" 0]
    Post_overflow_or_increment [of "\<lparr> m_count = 4, m_maxcount = 0, m_isOk_sem = True \<rparr>" 0]
  by (simp add: Post_def wxConditionInternal_Signal_def)

subsection \<open>The thread\<close>

text \<open>
  The example objects are what the member functions produce: \<open>Create()\<close> on a
  freshly constructed Joinable thread gives \<open>joinable_created\<close>.
\<close>

lemma joinable_created_by_Create:
  "objects (wxThread_ctor no_threads 1 wxTHREAD_JOINABLE gate gate) 1 = Some t \<Longrightarrow>
   wxThread_Create t (0, 101)
     = (wxTHREAD_NO_ERROR, joinable_created, [Enter_critsect, Call_pthread_create, Leave_critsect])"
  by (auto simp: wxThread_ctor_def no_threads_def wxThread_Create_def wxThreadInternal_Create_def
      wxThreadInternal_ctor_def joinable_created_def)

text \<open>
  The entry wrapper on a thread it finds in state New with the cancel flag set: it
  never calls the entry function, whatever that would return. It ends without user
  code, or it is still blocked on the start gate.
\<close>

lemma PthreadStart_cancelled_new:
  assumes "objects w thread = Some t"
    and "m_state (m_internal t) = STATE_NEW" and "m_cancelled (m_internal t)"
  shows "case PthreadStart w thread rc ws entry of
           Done (code, w', tr) \<Rightarrow> CallEntry \<notin> set tr
         | Blocked \<Rightarrow> rc = 0 \<and> Wait (m_semRun (m_internal t)) ws = None
         | Undefined \<Rightarrow> False"
  using assms by (auto simp: PthreadStart_def Let_def split: option.splits)

text \<open>With the gate open it ends, destroys the object and returns the sentinel.\<close>

lemma PthreadStart_cancelled_new_open:
  assumes "objects w thread = Some t"
    and "m_state (m_internal t) = STATE_NEW" and "m_cancelled (m_internal t)"
    and "m_count (m_semRun (m_internal t)) \<noteq> 0"
  shows "\<exists>w' tr. PthreadStart w thread 0 ws entry = Done (EXITCODE_CANCELLED, w', tr)
                \<and> CallEntry \<notin> set tr \<and> objects w' thread = None"
  using assms
  by (cases ws) (auto simp: PthreadStart_def Wait_def Let_def wxThread_dtor_def split: option.splits)

lemma Post_opens: "m_count s = 0 \<Longrightarrow> m_count (fst (snd (Post s err))) \<noteq> 0"
  by (auto simp: Post_def)

text \<open>
  Claim C1, on the code. \<open>Delete()\<close> on a Joinable thread that was created and not
  yet run leaves it in state New with the cancel flag set and the start gate posted.
  The entry wrapper, released from the gate, then calls no user code, and destroys the
  thread object although the thread is Joinable: the object is gone from the store and
  from \<open>gs_allThreads\<close>. The sentinel is the value the native thread ends with; it is
  not stored in any object.
\<close>

theorem PthreadStart_destroys_joinable_thread:
  "Delete joinable_created False False 0 None
     = Some (wxTHREAD_MISC_ERROR, None, joinable_deleted_before_run,
             [Enter_critsect, Leave_critsect, Call_OnDelete, Post_semRun])
   \<and> \<not> wxThread_m_isDetached joinable_deleted_before_run
   \<and> (case PthreadStart
             \<lparr> gs_allThreads = [1], gs_nThreadsBeingDeleted = 0,
               objects = [1 \<mapsto> joinable_deleted_before_run] \<rparr> 1 0 [] (Some 42) of
         Done (code, w, tr) \<Rightarrow>
           code = EXITCODE_CANCELLED \<and> objects w 1 = None \<and> gs_allThreads w = []
           \<and> tr = [Call_pthread_setspecific, Wait_semRun, Enter_critsect, Leave_critsect, Destroy 1]
       | Blocked \<Rightarrow> False
       | Undefined \<Rightarrow> False)"
  by (simp add: Delete_def joinable_created_def joinable_deleted_before_run_def SignalRun_def
      Post_def gate_def wxConditionInternal_Signal_def PthreadStart_def Wait_def wxThread_dtor_def)

text \<open>
  \<open>entry_returns\<close> is what the entry wrapper of a Joinable thread leaves in the
  object when the entry function returns.
\<close>

lemma PthreadStart_entry_returns:
  assumes "objects w thread = Some t" and "\<not> wxThread_m_isDetached t"
    and "\<not> (m_state (m_internal t) = STATE_NEW \<and> m_cancelled (m_internal t))"
    and "Wait (m_semRun (m_internal t)) ws = Some (r, sem, trs)"
  shows "\<exists>w' tr. PthreadStart w thread 0 ws (Some code) = Done (code, w', tr)
           \<and> objects w' thread
               = Some (entry_returns (t\<lparr> m_internal := (m_internal t)\<lparr> m_semRun := sem \<rparr> \<rparr>) code)"
  using assms by (auto simp: PthreadStart_def Exit_def Let_def entry_returns_def)

text \<open>Once a thread was joined, no further call of \<open>Wait()\<close> joins or blocks.\<close>

lemma Wait_calls_joined_any:
  assumes "\<not> m_shouldBeJoined (m_internal t)"
  shows "\<exists>codes t' tr. Wait_calls t steps = Some (codes, t', tr)
           \<and> count_list tr Call_pthread_join = 0 \<and> \<not> m_shouldBeJoined (m_internal t')"
  using assms
proof (induction steps arbitrary: t)
  case Nil
  then show ?case by simp
next
  case (Cons c steps)
  show ?case
  proof (cases c)
    case (Step_Wait is_main join)
    from Cons.prems have w: "wxThread_Wait t is_main join
        = Some (m_exitcode (m_internal t), t,
                (if is_main then [Call_wxMutexGuiLeave] else []) @ [Enter_csJoinFlag, Leave_csJoinFlag]
                @ (if is_main then [Call_wxMutexGuiEnter] else []))"
      by (simp add: wxThread_Wait_def wxThreadInternal_Wait_def)
    from Cons.IH [OF Cons.prems] obtain codes t' tr where
      "Wait_calls t steps = Some (codes, t', tr)" "count_list tr Call_pthread_join = 0"
      "\<not> m_shouldBeJoined (m_internal t')" by blast
    with w Step_Wait show ?thesis by simp
  next
    case (Step_entry_returns code)
    from Cons.prems have "\<not> m_shouldBeJoined (m_internal (entry_returns t code))"
      by (simp add: entry_returns_def)
    from Cons.IH [OF this] Step_entry_returns show ?thesis by simp
  qed
qed

text \<open>When only \<open>Wait()\<close> calls follow, they all read the exit code the object holds.\<close>

lemma Wait_calls_joined:
  assumes "\<not> m_shouldBeJoined (m_internal t)"
  shows "\<exists>tr. Wait_calls t (map (\<lambda>(is_main, join). Step_Wait is_main join) cs)
                = Some (replicate (length cs) (m_exitcode (m_internal t)), t, tr)
              \<and> count_list tr Call_pthread_join = 0"
  using assms
proof (induction cs)
  case Nil
  then show ?case by simp
next
  case (Cons c cs)
  obtain is_main join where c: "c = (is_main, join)" by (cases c)
  from Cons.prems have w: "wxThread_Wait t is_main join
      = Some (m_exitcode (m_internal t), t,
              (if is_main then [Call_wxMutexGuiLeave] else []) @ [Enter_csJoinFlag, Leave_csJoinFlag]
              @ (if is_main then [Call_wxMutexGuiEnter] else []))"
    by (simp add: wxThread_Wait_def wxThreadInternal_Wait_def)
  from Cons.IH [OF Cons.prems] obtain tr where
    "Wait_calls t (map (\<lambda>(is_main, join). Step_Wait is_main join) cs)
       = Some (replicate (length cs) (m_exitcode (m_internal t)), t, tr)"
    "count_list tr Call_pthread_join = 0" by blast
  with w c show ?case by simp
qed

text \<open>
  Claim C4, as the spec states it, asks that every call returns the same exit code.
  A first \<open>Wait()\<close> whose join fails (here with \<open>EDEADLK\<close>, the thread waiting for
  itself) clears \<open>m_shouldBeJoined\<close> all the same and returns the code the object
  held, 0. The thread runs on, its entry function returns 42, and the next
  \<open>Wait()\<close> joins nothing and returns 42.
\<close>

theorem Wait_exit_codes_counterexample:
  "Wait_calls joinable_running
     [Step_Wait False (Some (EDEADLK, 0)), Step_entry_returns 42, Step_Wait True None]
   = Some ([0, 42],
           joinable_running\<lparr> m_internal := (m_internal joinable_running)
              \<lparr> m_exitcode := 42, m_state := STATE_EXITED, m_shouldBeJoined := False \<rparr> \<rparr>,
           [Enter_csJoinFlag, Call_pthread_join, Leave_csJoinFlag,
            Call_wxMutexGuiLeave, Enter_csJoinFlag, Leave_csJoinFlag, Call_wxMutexGuiEnter])"
  by (simp add: joinable_running_def wxThread_Wait_def wxThreadInternal_Wait_def entry_returns_def)

text \<open>
  Claim C4, amended. On a thread whose \<open>m_shouldBeJoined\<close> is still set (a Joinable
  thread not yet joined), take any sequence of \<open>Wait()\<close> calls, the first of which
  gets its \<open>pthread_join\<close> back, with the thread's entry function returning at any
  point between them. The first call makes the one native join and clears the flag,
  whatever the join returns; the calls after it make none, whatever a join would do
  for them, so none of them blocks. And when that join succeeded, so that the thread
  has ended, all calls return the same exit code, the one the join stored.
\<close>

theorem Wait_joins_once:
  assumes "m_shouldBeJoined (m_internal t)"
  shows "(\<exists>codes t' tr.
            Wait_calls t (Step_Wait is_main (Some (err, v)) # steps) = Some (codes, t', tr)
          \<and> count_list tr Call_pthread_join = 1
          \<and> \<not> m_shouldBeJoined (m_internal t')
          \<and> hd codes = (if err = 0 then v else m_exitcode (m_internal t)))
       \<and> (\<exists>t1 tr1 tr2.
            wxThread_Wait t is_main (Some (0, v)) = Some (v, t1, tr1)
          \<and> count_list tr1 Call_pthread_join = 1
          \<and> \<not> m_shouldBeJoined (m_internal t1)
          \<and> Wait_calls t1 (map (\<lambda>(is_main, join). Step_Wait is_main join) cs)
              = Some (replicate (length cs) v, t1, tr2)
          \<and> count_list tr2 Call_pthread_join = 0
          \<and> Wait_calls t (Step_Wait is_main (Some (0, v))
                           # map (\<lambda>(is_main, join). Step_Wait is_main join) cs)
              = Some (replicate (Suc (length cs)) v, t1, tr1 @ tr2))"
proof -
  define first where "first = (\<lambda>e::int. t\<lparr> m_internal :=
      (if e = 0 then (m_internal t)\<lparr> m_exitcode := v \<rparr> else m_internal t)
        \<lparr> m_shouldBeJoined := False \<rparr> \<rparr>)"
  define tr1 where "tr1 = (if is_main then [Call_wxMutexGuiLeave] else []) @ [Enter_csJoinFlag]
      @ [Call_pthread_join] @ [Leave_csJoinFlag] @ (if is_main then [Call_wxMutexGuiEnter] else [])"
  have w: "wxThread_Wait t is_main (Some (e, v))
             = Some ((if e = 0 then v else m_exitcode (m_internal t)), first e, tr1)" for e
    using assms by (simp add: wxThread_Wait_def wxThreadInternal_Wait_def first_def tr1_def)
  have j: "count_list tr1 Call_pthread_join = 1" by (simp add: tr1_def)
  have n: "\<not> m_shouldBeJoined (m_internal (first e))" for e by (simp add: first_def)
  have e0: "m_exitcode (m_internal (first 0)) = v" by (simp add: first_def)
  from Wait_calls_joined_any [OF n, of err steps] obtain codes t' tr where
    a: "Wait_calls (first err) steps = Some (codes, t', tr)"
       "count_list tr Call_pthread_join = 0" "\<not> m_shouldBeJoined (m_internal t')" by blast
  have A: "\<exists>codes t' tr.
            Wait_calls t (Step_Wait is_main (Some (err, v)) # steps) = Some (codes, t', tr)
          \<and> count_list tr Call_pthread_join = 1
          \<and> \<not> m_shouldBeJoined (m_internal t')
          \<and> hd codes = (if err = 0 then v else m_exitcode (m_internal t))"
    using w [of err] a j by simp
  from Wait_calls_joined [OF n, of 0 cs] e0 obtain tr2 where
    r: "Wait_calls (first 0) (map (\<lambda>(is_main, join). Step_Wait is_main join) cs)
          = Some (replicate (length cs) v, first 0, tr2)"
       "count_list tr2 Call_pthread_join = 0" by auto
  have w0: "wxThread_Wait t is_main (Some (0, v)) = Some (v, first 0, tr1)"
    using w [of 0] by simp
  from w0 r have "Wait_calls t (Step_Wait is_main (Some (0, v))
                           # map (\<lambda>(is_main, join). Step_Wait is_main join) cs)
              = Some (replicate (Suc (length cs)) v, first 0, tr1 @ tr2)" by simp
  with w0 j n [of 0] r have B: "\<exists>t1 tr1 tr2.
            wxThread_Wait t is_main (Some (0, v)) = Some (v, t1, tr1)
          \<and> count_list tr1 Call_pthread_join = 1
          \<and> \<not> m_shouldBeJoined (m_internal t1)
          \<and> Wait_calls t1 (map (\<lambda>(is_main, join). Step_Wait is_main join) cs)
              = Some (replicate (length cs) v, t1, tr2)
          \<and> count_list tr2 Call_pthread_join = 0
          \<and> Wait_calls t (Step_Wait is_main (Some (0, v))
                           # map (\<lambda>(is_main, join). Step_Wait is_main join) cs)
              = Some (replicate (Suc (length cs)) v, t1, tr1 @ tr2)" by blast
  from A B show ?thesis by blast
qed

theorem Wait_joins_once_witness:
  "m_shouldBeJoined (m_internal joinable_running)
   \<and> Wait_calls joinable_running
         [Step_Wait True (Some (0, 42)), Step_Wait False None, Step_Wait False (Some (0, 7))]
       = Some ([42, 42, 42],
               joinable_running\<lparr> m_internal := (m_internal joinable_running)
                  \<lparr> m_exitcode := 42, m_shouldBeJoined := False \<rparr> \<rparr>,
               [Call_wxMutexGuiLeave, Enter_csJoinFlag, Call_pthread_join, Leave_csJoinFlag,
                Call_wxMutexGuiEnter, Enter_csJoinFlag, Leave_csJoinFlag,
                Enter_csJoinFlag, Leave_csJoinFlag])
   \<and> Wait_calls joinable_running
         [Step_Wait False (Some (EDEADLK, 0)), Step_entry_returns 42, Step_Wait False None]
       = Some ([0, 42],
               joinable_running\<lparr> m_internal := (m_internal joinable_running)
                  \<lparr> m_exitcode := 42, m_state := STATE_EXITED, m_shouldBeJoined := False \<rparr> \<rparr>,
               [Enter_csJoinFlag, Call_pthread_join, Leave_csJoinFlag,
                Enter_csJoinFlag, Leave_csJoinFlag])"
  using Wait_joins_once [of joinable_running True 0 42 "[]" "[(False, None), (False, Some (0, 7))]"]
    Wait_joins_once [of joinable_running False EDEADLK 0
      "[Step_entry_returns 42, Step_Wait False None]" "[]"]
  by (simp add: joinable_running_def wxThread_Wait_def wxThreadInternal_Wait_def entry_returns_def)

text \<open>
  Claim C8. \<open>Delete()\<close> on a thread in state New sets the cancel flag, posts the
  start gate, waits for nothing and returns \<open>wxTHREAD_MISC_ERROR\<close>; the state stays
  New. The entry wrapper that finds the object so never calls the entry function:
  it ends without user code or is still blocked on the gate. When the gate was closed
  before the call (the wrapper was waiting on it), the post opens it and the wrapper
  ends with the sentinel.
\<close>

theorem Delete_before_run:
  assumes "m_state (m_internal t) = STATE_NEW"
  shows "\<exists>t'. Delete t want_rc is_main err join
            = Some (wxTHREAD_MISC_ERROR, None, t',
                    [Enter_critsect, Leave_critsect, Call_OnDelete, Post_semRun])
         \<and> t' = t\<lparr> m_internal := (m_internal t)
                    \<lparr> m_cancelled := True,
                      m_semRun := fst (snd (Post (m_semRun (m_internal t)) err)) \<rparr> \<rparr>
         \<and> (\<forall>w thread rc ws entry. objects w thread = Some t' \<longrightarrow>
               (case PthreadStart w thread rc ws entry of
                  Done (code, w', tr) \<Rightarrow> CallEntry \<notin> set tr
                | Blocked \<Rightarrow> rc = 0 \<and> Wait (m_semRun (m_internal t')) ws = None
                | Undefined \<Rightarrow> False))
         \<and> (m_count (m_semRun (m_internal t)) = 0 \<longrightarrow>
               (\<forall>w thread ws entry. objects w thread = Some t' \<longrightarrow>
                  (\<exists>w' tr. PthreadStart w thread 0 ws entry = Done (EXITCODE_CANCELLED, w', tr)
                          \<and> CallEntry \<notin> set tr)))"
proof -
  define t' where "t' = t\<lparr> m_internal := (m_internal t)
                    \<lparr> m_cancelled := True,
                      m_semRun := fst (snd (Post (m_semRun (m_internal t)) err)) \<rparr> \<rparr>"
  have d: "Delete t want_rc is_main err join
            = Some (wxTHREAD_MISC_ERROR, None, t',
                    [Enter_critsect, Leave_critsect, Call_OnDelete, Post_semRun])"
    using assms by (simp add: Delete_def Let_def SignalRun_def t'_def)
  have s: "m_state (m_internal t') = STATE_NEW" and c: "m_cancelled (m_internal t')"
    using assms by (simp_all add: t'_def)
  have g: "m_count (m_semRun (m_internal t)) = 0 \<Longrightarrow> m_count (m_semRun (m_internal t')) \<noteq> 0"
    by (simp add: t'_def Post_opens)
  show ?thesis
    using d s c g PthreadStart_cancelled_new [of _ _ t'] PthreadStart_cancelled_new_open [of _ _ t']
    unfolding t'_def [symmetric] by blast
qed

theorem Delete_before_run_witness:
  "m_state (m_internal joinable_created) = STATE_NEW
   \<and> m_count (m_semRun (m_internal joinable_created)) = 0
   \<and> Delete joinable_created True True 0 None
       = Some (wxTHREAD_MISC_ERROR, None, joinable_deleted_before_run,
               [Enter_critsect, Leave_critsect, Call_OnDelete, Post_semRun])
   \<and> objects \<lparr> gs_allThreads = [1], gs_nThreadsBeingDeleted = 0,
                objects = [1 \<mapsto> joinable_deleted_before_run] \<rparr> 1
       = Some joinable_deleted_before_run
   \<and> (case PthreadStart
             \<lparr> gs_allThreads = [1], gs_nThreadsBeingDeleted = 0,
               objects = [1 \<mapsto> joinable_deleted_before_run] \<rparr> 1 0 [] (Some 42) of
         Done (code, w, tr) \<Rightarrow>
           code = EXITCODE_CANCELLED
           \<and> tr = [Call_pthread_setspecific, Wait_semRun, Enter_critsect, Leave_critsect, Destroy 1]
       | Blocked \<Rightarrow> False
       | Undefined \<Rightarrow> False)"
  using Delete_before_run [of joinable_created True True 0 None]
  by (simp add: Delete_def joinable_created_def joinable_deleted_before_run_def SignalRun_def
      Post_def gate_def wxConditionInternal_Signal_def PthreadStart_def Wait_def wxThread_dtor_def)

text \<open>
  Claim C10. \<open>Run()\<close> on a thread whose \<open>m_created\<close> is set returns
  \<open>wxTHREAD_NO_ERROR\<close> in every state, stores \<open>STATE_RUNNING\<close> and posts the start
  gate; nothing else of the object changes. \<open>m_created\<close> stays set, so the same
  holds for each further call.
\<close>

theorem Run_on_created_thread:
  assumes "m_created (m_internal t)"
  shows "wxThread_Run t pc err
           = (wxTHREAD_NO_ERROR,
              t\<lparr> m_internal := (m_internal t)
                   \<lparr> m_state := STATE_RUNNING,
                     m_semRun := fst (snd (Post (m_semRun (m_internal t)) err)) \<rparr> \<rparr>,
              [Enter_critsect, Post_semRun, Leave_critsect])
       \<and> m_created (m_internal (fst (snd (wxThread_Run t pc err))))"
  using assms by (simp add: wxThread_Run_def wxThreadInternal_Run_def SignalRun_def)

theorem Run_on_created_thread_witness:
  "m_created (m_internal joinable_running)
   \<and> wxThread_Run joinable_running (0, 0) 0
       = (wxTHREAD_NO_ERROR,
          joinable_running\<lparr> m_internal := (m_internal joinable_running)
            \<lparr> m_semRun := \<lparr> m_count = 1, m_maxcount = 1, m_isOk_sem = True \<rparr> \<rparr> \<rparr>,
          [Enter_critsect, Post_semRun, Leave_critsect])
   \<and> wxThread_Run
         (joinable_running\<lparr> m_internal := (m_internal joinable_running)\<lparr> m_state := STATE_PAUSED \<rparr> \<rparr>)
         (0, 0) 0
       = (wxTHREAD_NO_ERROR,
          joinable_running\<lparr> m_internal := (m_internal joinable_running)
            \<lparr> m_semRun := \<lparr> m_count = 1, m_maxcount = 1, m_isOk_sem = True \<rparr> \<rparr> \<rparr>,
          [Enter_critsect, Post_semRun, Leave_critsect])
   \<and> wxThread_Run
         (joinable_running\<lparr> m_internal := (m_internal joinable_running)\<lparr> m_state := STATE_EXITED \<rparr> \<rparr>)
         (0, 0) 0
       = (wxTHREAD_NO_ERROR,
          joinable_running\<lparr> m_internal := (m_internal joinable_running)
            \<lparr> m_semRun := \<lparr> m_count = 1, m_maxcount = 1, m_isOk_sem = True \<rparr> \<rparr> \<rparr>,
          [Enter_critsect, Post_semRun, Leave_critsect])"
  using Run_on_created_thread [of joinable_running "(0, 0)" 0]
    Run_on_created_thread
      [of "joinable_running\<lparr> m_internal := (m_internal joinable_running)\<lparr> m_state := STATE_PAUSED \<rparr> \<rparr>" "(0, 0)" 0]
    Run_on_created_thread
      [of "joinable_running\<lparr> m_internal := (m_internal joinable_running)\<lparr> m_state := STATE_EXITED \<rparr> \<rparr>" "(0, 0)" 0]
  by (simp add: joinable_running_def Post_def gate_def wxConditionInternal_Signal_def)

subsection \<open>The shutdown of the process\<close>

text \<open>
  \<open>Delete()\<close> destroys no object and calls no \<open>Delete()\<close>. So a Joinable thread
  at the head of \<open>gs_allThreads\<close> that no other thread destroys stays at the head
  through the loop of \<open>OnExit\<close>, and every turn of the loop calls \<open>Delete()\<close> on
  it.
\<close>

lemma Delete_keeps_kind:
  "Delete t want_rc is_main err join = Some (r, rc, t', tr) \<Longrightarrow>
   wxThread_m_isDetached t' = wxThread_m_isDetached t"
  by (auto simp: Delete_def Delete_default_def Let_def
      split: wxThreadState.splits option.splits if_splits prod.splits)

lemma Delete_calls_append: "Delete_calls (a @ b) = Delete_calls a @ Delete_calls b"
  by (induction a rule: Delete_calls.induct) simp_all

lemma Delete_makes_no_Delete_call:
  "Delete t want_rc is_main err join = Some (r, rc, t', tr) \<Longrightarrow> Delete_calls tr = []"
  by (auto simp: Delete_def Delete_default_def Let_def wxThreadInternal_Wait_def
      wxThreadInternal_Resume_def Delete_calls_append
      split: wxThreadState.splits option.splits if_splits prod.splits)

lemma disturb_keeps_head:
  assumes "gs_allThreads w = p # ps" and "objects w p = Some t"
    and "e \<noteq> Env_DeleteThread p" and "e \<noteq> Env_delete p"
  shows "\<exists>ps'. gs_allThreads (disturb w e) = p # ps' \<and> objects (disturb w e) p = Some t"
  using assms by (cases e) (auto simp: DeleteThread_def wxThread_dtor_def Let_def)

lemma disturb_all_keeps_head:
  assumes "gs_allThreads w = p # ps" and "objects w p = Some t"
    and "Env_DeleteThread p \<notin> set env" and "Env_delete p \<notin> set env"
  shows "\<exists>ps'. gs_allThreads (foldl disturb w env) = p # ps'
             \<and> objects (foldl disturb w env) p = Some t"
  using assms
proof (induction env arbitrary: w ps)
  case Nil
  then show ?case by simp
next
  case (Cons e env)
  from Cons.prems have "e \<noteq> Env_DeleteThread p" "e \<noteq> Env_delete p" by auto
  from disturb_keeps_head [OF Cons.prems(1,2) this] obtain ps' where
    h: "gs_allThreads (disturb w e) = p # ps'" "objects (disturb w e) p = Some t" by blast
  from Cons.prems have "Env_DeleteThread p \<notin> set env" "Env_delete p \<notin> set env" by auto
  from Cons.IH [OF h this] show ?case by simp
qed

lemma OnExit_loop_head_stays:
  assumes "gs_allThreads w = p # ps" and "objects w p = Some t"
    and "\<not> wxThread_m_isDetached t"
    and "\<And>i. Env_DeleteThread p \<notin> set (snd (snd (orc i)))"
    and "\<And>i. Env_delete p \<notin> set (snd (snd (orc i)))"
    and "OnExit_loop k n w is_main orc = Done (w', tr)"
  shows "(\<exists>ps'. gs_allThreads w' = p # ps') \<and> Delete_calls tr = replicate k p"
  using assms
proof (induction k arbitrary: n w ps t tr)
  case 0
  then show ?case by simp
next
  case (Suc k)
  obtain err join env where o: "orc n = (err, join, env)" by (cases "orc n")
  from Suc.prems(6) Suc.prems(1,2) o obtain r rc t1 tr1 where
    d: "Delete t False is_main err join = Some (r, rc, t1, tr1)"
    by (auto split: option.splits outcome.splits)
  define w1 where "w1 = foldl disturb (w\<lparr> objects := (objects w)(p \<mapsto> t1) \<rparr>) env"
  from Suc.prems(6) Suc.prems(1,2) o d obtain tr2 where
    l: "OnExit_loop k (Suc n) w1 is_main orc = Done (w', tr2)"
    and tr: "tr = [Call_Delete p] @ tr1 @ tr2"
    by (auto simp: w1_def split: outcome.splits)
  have e: "Env_DeleteThread p \<notin> set env" "Env_delete p \<notin> set env"
    using Suc.prems(4) [of n] Suc.prems(5) [of n] o by simp_all
  have "gs_allThreads (w\<lparr> objects := (objects w)(p \<mapsto> t1) \<rparr>) = p # ps"
    "objects (w\<lparr> objects := (objects w)(p \<mapsto> t1) \<rparr>) p = Some t1"
    using Suc.prems(1) by simp_all
  from disturb_all_keeps_head [OF this e] obtain ps' where
    h: "gs_allThreads w1 = p # ps'" "objects w1 p = Some t1" by (auto simp: w1_def)
  have k: "\<not> wxThread_m_isDetached t1" using Delete_keeps_kind [OF d] Suc.prems(3) by simp
  from Suc.IH [OF h k Suc.prems(4) Suc.prems(5) l]
  have "(\<exists>ps'. gs_allThreads w' = p # ps') \<and> Delete_calls tr2 = replicate k p" .
  moreover have "Delete_calls (tr1 @ tr2) = Delete_calls tr2"
    using Delete_makes_no_Delete_call [OF d] by (simp add: Delete_calls_append)
  ultimately show ?case using tr by simp
qed

lemma OnExit_keeps_joinable_head:
  assumes "gs_nThreadsBeingDeleted w = 0"
    and "gs_allThreads w = p # ps" and "objects w p = Some t"
    and "\<not> wxThread_m_isDetached t"
    and "\<And>i. Env_DeleteThread p \<notin> set (snd (snd (orc i)))"
    and "\<And>i. Env_delete p \<notin> set (snd (snd (orc i)))"
    and "OnExit w is_main wake orc = Done (w', tr)"
  shows "(\<exists>ps'. gs_allThreads w' = p # ps') \<and> Delete_calls tr = replicate (Suc (length ps)) p"
proof -
  from assms(1,2,7) obtain tr2 where
    l: "OnExit_loop (Suc (length ps)) 0 w is_main orc = Done (w', tr2)"
    and tr: "tr = tr2 @ [Delete_mutexAllThreads, Unlock_mutexGui, Delete_mutexGui,
                         Call_pthread_key_delete, Delete_condAllDeleted, Delete_mutexDeleteThread]"
    by (auto simp: OnExit_def Let_def split: outcome.splits)
  from OnExit_loop_head_stays [OF assms(2,3,4,5,6) l] tr show ?thesis
    by (simp add: Delete_calls_append)
qed

text \<open>
  Claim C3, on the code. At exit, with a running Joinable thread registered before a
  running Detached one and no thread being deleted, \<open>OnExit\<close> calls \<open>Delete()\<close>
  twice on the Joinable thread and never on the other one. When no thread ends by
  itself meanwhile, both threads are still registered when it frees its globals; when
  the Detached thread ends by itself after the first turn, the Joinable thread is
  still registered.
\<close>

theorem OnExit_leaves_threads_registered:
  "(case OnExit two_threads True None (\<lambda>n. (0, Some (0, 42), [])) of
      Done (w, tr) \<Rightarrow>
        gs_allThreads w = [1, 2] \<and> Delete_calls tr = [1, 1]
        \<and> objects w 2 = Some detached_running
    | Blocked \<Rightarrow> False
    | Undefined \<Rightarrow> False)
   \<and> (case OnExit two_threads True None (\<lambda>n. (0, Some (0, 42), [Env_DeleteThread 2])) of
      Done (w, tr) \<Rightarrow> gs_allThreads w = [1] \<and> Delete_calls tr = [1, 1]
    | Blocked \<Rightarrow> False
    | Undefined \<Rightarrow> False)"
  by (simp add: OnExit_def two_threads_def joinable_running_def detached_running_def Delete_def
      Delete_default_def wxThreadInternal_Wait_def gate_def DeleteThread_def wxThread_dtor_def Let_def)

end
